theory Spec2Isabelle
  imports Main "HOL-Library.Sublist"
begin

section \<open>The booking server: slot computation and conflict resolution\<close>

text \<open>
  A shallow embedding of \<^verbatim>\<open>src/backend/server.js\<close>: the duration rules
  (\<^verbatim>\<open>computeDuration\<close>), the working calendar (\<^verbatim>\<open>generateSlotsForDay\<close>,
  \<^verbatim>\<open>fitsWithinBlock\<close>), the conflict check (\<^verbatim>\<open>checkConflicts\<close>), the forward search
  (\<^verbatim>\<open>findNextAvailableSlot\<close>) and the two handlers that compose them
  (\<^verbatim>\<open>POST /book\<close>, \<^verbatim>\<open>GET /availability\<close>).

  Conventions of the model, each a boundary of what is embedded:
  \<^item> A luxon \<^verbatim>\<open>DateTime\<close> in the fixed zone is its local wall-clock time in
    milliseconds since 1970-01-01T00:00 (a Thursday). Changes of the zone's offset
    (daylight saving) are not modelled: every day has 24 hours, so adding hours to the
    start of a day gives that wall-clock time.
  \<^item> The ISO texts that the table stores and that SQL compares are modelled by these
    numbers: with one fixed offset the text order is the time order.
  \<^item> Strings are byte strings (UTF-8). \<^verbatim>\<open>trim\<close> and \<^verbatim>\<open>toLowerCase\<close> act on
    ASCII white space and ASCII letters; the Hebrew literals of the source are written
    as their UTF-8 bytes and have no case.
  \<^item> \<^verbatim>\<open>details\<close> is the object that \<^verbatim>\<open>parseDetails\<close> yields: a finite mapping
    from field names to JSON scalars. JSON numbers are integers (what the form sends);
    \<^verbatim>\<open>JSON.stringify\<close> followed by \<^verbatim>\<open>JSON.parse\<close> is the identity on such objects.
  \<^item> The database never fails; the table is the list of its rows in insertion order.
  \<^item> The clock (\<^verbatim>\<open>DateTime.now()\<close>) is a parameter \<open>now\<close> of the functions that
    read it.
\<close>

subsection \<open>Time\<close>

type_synonym DateTime = int

definition MINUTE :: int where "MINUTE = 60000"
definition HOUR :: int where "HOUR = 3600000"
definition DAY :: int where "DAY = 86400000"

definition startOf_day :: "DateTime \<Rightarrow> DateTime" where
  "startOf_day t = t - t mod DAY"

text \<open>luxon's \<^verbatim>\<open>weekday\<close>: 1 is Monday, 7 is Sunday.\<close>

definition weekday :: "DateTime \<Rightarrow> int" where
  "weekday t = (t div DAY + 3) mod 7 + 1"

definition hasSame_day :: "DateTime \<Rightarrow> DateTime \<Rightarrow> bool" where
  "hasSame_day a b = (startOf_day a = startOf_day b)"

definition plus_minutes :: "DateTime \<Rightarrow> int \<Rightarrow> DateTime" where
  "plus_minutes t m = t + m * MINUTE"

definition plus_hm :: "DateTime \<Rightarrow> int \<Rightarrow> int \<Rightarrow> DateTime" where
  "plus_hm t h m = t + h * HOUR + m * MINUTE"

definition plus_days :: "DateTime \<Rightarrow> int \<Rightarrow> DateTime" where
  "plus_days t n = t + n * DAY"

text \<open>\<^verbatim>\<open>[5, 6].includes(day.weekday)\<close>: Friday and Saturday.\<close>

definition is_weekend :: "DateTime \<Rightarrow> bool" where
  "is_weekend t = (weekday t \<in> {5, 6})"

subsection \<open>Strings\<close>

definition is_ws :: "char \<Rightarrow> bool" where
  "is_ws c = (c \<in> set [CHR 0x09, CHR 0x0A, CHR 0x0B, CHR 0x0C, CHR 0x0D, CHR 0x20])"

definition trim :: "string \<Rightarrow> string" where
  "trim s = rev (dropWhile is_ws (rev (dropWhile is_ws s)))"

definition toLowerCase_char :: "char \<Rightarrow> char" where
  "toLowerCase_char c =
     (case map_of (zip ''ABCDEFGHIJKLMNOPQRSTUVWXYZ'' ''abcdefghijklmnopqrstuvwxyz'') c of
        Some l \<Rightarrow> l | None \<Rightarrow> c)"

definition toLowerCase :: "string \<Rightarrow> string" where
  "toLowerCase s = map toLowerCase_char s"

text \<open>\<^verbatim>\<open>s.includes(sub)\<close>: \<open>sub\<close> occurs in \<open>s\<close> as a contiguous substring.\<close>

fun str_includes :: "string \<Rightarrow> string \<Rightarrow> bool" where
  "str_includes [] sub = (sub = [])"
| "str_includes (c # cs) sub = (prefix sub (c # cs) \<or> str_includes cs sub)"

text \<open>\<^verbatim>\<open>(serviceType || '').toString().trim().toLowerCase()\<close>\<close>

definition normalise :: "string \<Rightarrow> string" where
  "normalise serviceType = toLowerCase (trim serviceType)"

text \<open>The Hebrew keyword of the coded-entry category (line 59), five letters.\<close>

definition kidud_he :: string where
  "kidud_he = [CHR 0xD7, CHR 0xA7, CHR 0xD7, CHR 0x99, CHR 0xD7, CHR 0x93,
               CHR 0xD7, CHR 0x95, CHR 0xD7, CHR 0x93]"

text \<open>\<^verbatim>\<open>st === 'kidud' || st.includes('kidud') || st.includes(<Hebrew keyword>)\<close>\<close>

definition isKidud :: "string \<Rightarrow> bool" where
  "isKidud st = (st = ''kidud'' \<or> str_includes st ''kidud'' \<or> str_includes st kidud_he)"

subsection \<open>JSON scalars and \<^verbatim>\<open>parseInt\<close>\<close>

datatype jsval = JUndefined | JNull | JBool bool | JNum int | JStr string

type_synonym details = "string \<rightharpoonup> jsval"

definition get_field :: "details \<Rightarrow> string \<Rightarrow> jsval" where
  "get_field d k = (case d k of None \<Rightarrow> JUndefined | Some v \<Rightarrow> v)"

fun truthy :: "jsval \<Rightarrow> bool" where
  "truthy JUndefined = False"
| "truthy JNull = False"
| "truthy (JBool b) = b"
| "truthy (JNum n) = (n \<noteq> 0)"
| "truthy (JStr s) = (s \<noteq> [])"

definition js_or :: "jsval \<Rightarrow> jsval \<Rightarrow> jsval" where
  "js_or a b = (if truthy a then a else b)"

definition digit_of :: "char \<Rightarrow> int option" where
  "digit_of c = map_of (zip ''0123456789'' [0, 1, 2, 3, 4, 5, 6, 7, 8, 9]) c"

definition is_digit :: "char \<Rightarrow> bool" where
  "is_digit c = (digit_of c \<noteq> None)"

definition digits_value :: "string \<Rightarrow> int" where
  "digits_value ds = foldl (\<lambda>a c. 10 * a + (case digit_of c of Some v \<Rightarrow> v | None \<Rightarrow> 0)) 0 ds"

text \<open>
  \<^verbatim>\<open>parseInt(s, 10)\<close> on a string: leading white space is skipped, one sign is read,
  then the longest run of decimal digits; \<open>None\<close> is \<^verbatim>\<open>NaN\<close> (no digit there).
\<close>

definition parseInt_str :: "string \<Rightarrow> int option" where
  "parseInt_str s =
     (let t = dropWhile is_ws s;
          neg = (case t of c # _ \<Rightarrow> c = CHR ''-'' | [] \<Rightarrow> False);
          u = (case t of c # r \<Rightarrow> (if c = CHR ''-'' \<or> c = CHR ''+'' then r else t) | [] \<Rightarrow> t);
          ds = takeWhile is_digit u
      in if ds = [] then None
         else Some (if neg then - digits_value ds else digits_value ds))"

text \<open>
  \<^verbatim>\<open>parseInt(v, 10)\<close> converts \<open>v\<close> to a string first: an integer prints as its
  digits, \<^verbatim>\<open>true\<close>, \<^verbatim>\<open>false\<close>, \<^verbatim>\<open>null\<close> and \<^verbatim>\<open>undefined\<close> print as words.
  (Integers of 22 digits or more print with an exponent, and digit strings beyond the
  precision of a double are rounded; the model reads both exactly.)
\<close>

fun parseInt :: "jsval \<Rightarrow> int option" where
  "parseInt (JNum n) = Some n"
| "parseInt (JStr s) = parseInt_str s"
| "parseInt (JBool b) = None"
| "parseInt JNull = None"
| "parseInt JUndefined = None"

text \<open>\<^verbatim>\<open>parseInt(d.a || d.b || 0, 10) || 0\<close>: \<^verbatim>\<open>NaN\<close> and 0 are falsy.\<close>

definition unit_count :: "details \<Rightarrow> string \<Rightarrow> string \<Rightarrow> int" where
  "unit_count d a b =
     (case parseInt (js_or (js_or (get_field d a) (get_field d b)) (JNum 0)) of
        None \<Rightarrow> 0 | Some n \<Rightarrow> n)"

subsection \<open>Duration rules (\<^verbatim>\<open>computeDuration\<close>, lines 54-90)\<close>

text \<open>
  The value \<^verbatim>\<open>computeDuration\<close> returns: a number of minutes, or, for a service type
  that names a member every object inherits, that member (a function or an object).
\<close>

datatype duration = Minutes int | NonNumeric

text \<open>The table \<^verbatim>\<open>map\<close> of lines 69-82, in the order of its keys.\<close>

definition duration_map :: "(string \<times> int) list" where
  "duration_map =
    [([CHR 0xD7, CHR 0x90, CHR 0xD7, CHR 0x99, CHR 0xD7, CHR 0xA9, CHR 0xD7, CHR 0x95,
       CHR 0xD7, CHR 0xA8, CHR 0x20, CHR 0xD7, CHR 0x94, CHR 0xD7, CHR 0x95, CHR 0xD7,
       CHR 0xA6, CHR 0xD7, CHR 0x9C, CHR 0x22, CHR 0xD7, CHR 0x90], 15),
     ([CHR 0xD7, CHR 0x94, CHR 0xD7, CHR 0xA9, CHR 0xD7, CHR 0x97, CHR 0xD7, CHR 0xA8,
       CHR 0xD7, CHR 0x94], 15),
     ([CHR 0xD7, CHR 0x98, CHR 0xD7, CHR 0x99, CHR 0xD7, CHR 0x95, CHR 0xD7, CHR 0x9C,
       CHR 0xD7, CHR 0x99, CHR 0xD7, CHR 0x9D, CHR 0x20, CHR 0xD7, CHR 0x99, CHR 0xD7,
       CHR 0x95, CHR 0xD7, CHR 0xA6, CHR 0xD7, CHR 0x90], 5),
     ([CHR 0xD7, CHR 0x98, CHR 0xD7, CHR 0x95, CHR 0xD7, CHR 0xA4, CHR 0xD7, CHR 0xA1,
       CHR 0x20, CHR 0xD7, CHR 0x98, CHR 0xD7, CHR 0x99, CHR 0xD7, CHR 0x95, CHR 0xD7,
       CHR 0x9C, CHR 0xD7, CHR 0x99, CHR 0xD7, CHR 0x9D, CHR 0x20, CHR 0x2D, CHR 0x20,
       CHR 0xD7, CHR 0x99, CHR 0xD7, CHR 0x95, CHR 0xD7, CHR 0xA6, CHR 0xD7, CHR 0x90], 5),
     ([CHR 0xD7, CHR 0x97, CHR 0xD7, CHR 0x95, CHR 0x22, CHR 0xD7, CHR 0x9C], 5),
     ([CHR 0xD7, CHR 0x98, CHR 0xD7, CHR 0x95, CHR 0xD7, CHR 0xA4, CHR 0xD7, CHR 0xA1,
       CHR 0x20, CHR 0xD7, CHR 0x97, CHR 0xD7, CHR 0x95, CHR 0x22, CHR 0xD7, CHR 0x9C], 5),
     ([CHR 0xD7, CHR 0x90, CHR 0xD7, CHR 0x99, CHR 0xD7, CHR 0xA9, CHR 0xD7, CHR 0x95,
       CHR 0xD7, CHR 0xA8, CHR 0x20, CHR 0xD7, CHR 0x9B, CHR 0xD7, CHR 0xA0, CHR 0xD7,
       CHR 0x99, CHR 0xD7, CHR 0xA1, CHR 0xD7, CHR 0x94, CHR 0x20, CHR 0xD7, CHR 0xA7,
       CHR 0xD7, CHR 0x91, CHR 0xD7, CHR 0x95, CHR 0xD7, CHR 0xA2], 5),
     (''hotzla'', 15),
     (''hashchara'', 15),
     (''tiulim-out'', 5),
     (''chul'', 5)]"

text \<open>
  \<^verbatim>\<open>map\<close> is an object literal, so \<^verbatim>\<open>map[serviceType]\<close> also finds what every object
  inherits from \<^verbatim>\<open>Object.prototype\<close>; each of these members is truthy and is not a number.
\<close>

definition Object_prototype_keys :: "string list" where
  "Object_prototype_keys =
    [''constructor'', ''__defineGetter__'', ''__defineSetter__'', ''hasOwnProperty'',
     ''__lookupGetter__'', ''__lookupSetter__'', ''isPrototypeOf'', ''propertyIsEnumerable'',
     ''toString'', ''valueOf'', ''__proto__'', ''toLocaleString'']"

text \<open>\<^verbatim>\<open>map[key]\<close>: an own entry first, then an inherited member, else \<^verbatim>\<open>undefined\<close>.\<close>

definition map_get :: "string \<Rightarrow> duration option" where
  "map_get key =
     (case map_of duration_map key of
        Some v \<Rightarrow> Some (Minutes v)
      | None \<Rightarrow> (if key \<in> set Object_prototype_keys then Some NonNumeric else None))"

text \<open>The loop of lines 86-88: the first key whose lower-case form is \<open>low\<close>.\<close>

fun lookup_lower :: "(string \<times> int) list \<Rightarrow> string \<Rightarrow> int option" where
  "lookup_lower [] low = None"
| "lookup_lower ((k, v) # kvs) low = (if toLowerCase k = low then Some v else lookup_lower kvs low)"

definition computeDuration :: "string \<Rightarrow> details \<Rightarrow> duration" where
  "computeDuration serviceType d =
     (let st = normalise serviceType in
      if isKidud st then
        (let numS = unit_count d ''sodi'' ''numS'';
             numA = unit_count d ''anan'' ''numA'';
             sMinutes = numS * 10;
             aMinutes = numA * 10;
             maxMinutes = max sMinutes aMinutes
         in Minutes (max maxMinutes 10))
      else
        (case map_get serviceType of
           Some v \<Rightarrow> v
         | None \<Rightarrow> (case lookup_lower duration_map st of Some v \<Rightarrow> Minutes v | None \<Rightarrow> Minutes 5)))"

subsection \<open>The appointments table\<close>

text \<open>
  One row of the table of lines 23-32. \<open>rid\<close> is the column \<^verbatim>\<open>id\<close>, \<open>is_done\<close> the
  column \<^verbatim>\<open>done\<close>.
\<close>

record appointment =
  rid :: nat
  serviceType :: string
  details :: details
  startTime :: DateTime
  endTime :: DateTime
  created_at :: DateTime
  phone :: "string option"
  is_done :: bool

text \<open>The table: its rows, and the last key \<^verbatim>\<open>AUTOINCREMENT\<close> handed out.\<close>

record store =
  rows :: "appointment list"
  lastID :: nat

definition empty_store :: store where
  "empty_store = \<lparr>rows = [], lastID = 0\<rparr>"

text \<open>
  \<^verbatim>\<open>SELECT * FROM appointments WHERE NOT (endTime <= ? OR startTime >= ?)\<close>
  with the parameters \<^verbatim>\<open>[startISO, endISO]\<close> (line 94).
\<close>

definition queryOverlapping :: "store \<Rightarrow> DateTime \<Rightarrow> DateTime \<Rightarrow> appointment list" where
  "queryOverlapping db startISO endISO =
     filter (\<lambda>r. \<not> (endTime r \<le> startISO \<or> startTime r \<ge> endISO)) (rows db)"

text \<open>
  \<^verbatim>\<open>INSERT INTO appointments (...) VALUES (?,?,?,?,?,?,?)\<close> (lines 211-212, 221-222);
  the result carries \<^verbatim>\<open>this.lastID\<close>.
\<close>

definition insert_appointment ::
  "store \<Rightarrow> string \<Rightarrow> details \<Rightarrow> DateTime \<Rightarrow> DateTime \<Rightarrow> DateTime \<Rightarrow> string option \<Rightarrow> bool
     \<Rightarrow> store \<times> nat" where
  "insert_appointment db st d s e now ph dn =
     (let i = Suc (lastID db)
      in (\<lparr>rows = rows db @ [\<lparr>rid = i, serviceType = st, details = d, startTime = s,
                                endTime = e, created_at = now, phone = ph, is_done = dn\<rparr>],
           lastID = i\<rparr>, i))"

text \<open>\<^verbatim>\<open>DELETE FROM appointments WHERE id = ?\<close> (line 236).\<close>

definition delete_book :: "store \<Rightarrow> nat \<Rightarrow> store" where
  "delete_book db i = db\<lparr>rows := filter (\<lambda>r. rid r \<noteq> i) (rows db)\<rparr>"

subsection \<open>Conflict check (\<^verbatim>\<open>checkConflicts\<close>, lines 92-120)\<close>

text \<open>The three rejection messages, in the order of lines 96, 112 and 113.\<close>

datatype message = TwoOverlapping | SodiClash | AnanClash

text \<open>\<^verbatim>\<open>{ ok: true }\<close> or \<^verbatim>\<open>{ ok: false, message }\<close>.\<close>

datatype conflict_result = Ok | Rejected message

text \<open>The loop of lines 105-115 over the overlapping rows.\<close>

fun kidud_loop :: "int \<Rightarrow> int \<Rightarrow> appointment list \<Rightarrow> conflict_result" where
  "kidud_loop newS newA [] = Ok"
| "kidud_loop newS newA (r # rs) =
     (if isKidud (normalise (serviceType r)) then
        (let rS = unit_count (details r) ''sodi'' ''numS'';
             rA = unit_count (details r) ''anan'' ''numA''
         in if newS > 0 \<and> rS > 0 then Rejected SodiClash
            else if newA > 0 \<and> rA > 0 then Rejected AnanClash
            else kidud_loop newS newA rs)
      else kidud_loop newS newA rs)"

definition checkConflicts ::
  "store \<Rightarrow> DateTime \<Rightarrow> DateTime \<Rightarrow> string \<Rightarrow> details \<Rightarrow> conflict_result" where
  "checkConflicts db startISO endISO st d =
     (let rs = queryOverlapping db startISO endISO in
      if length rs \<ge> 2 then Rejected TwoOverlapping
      else if isKidud (normalise st) then
        kidud_loop (unit_count d ''sodi'' ''numS'') (unit_count d ''anan'' ''numA'') rs
      else Ok)"

subsection \<open>Working calendar (lines 36-42, 122-147)\<close>

record working_block =
  bsH :: int
  bsM :: int
  beH :: int
  beM :: int

definition WORKING_BLOCKS :: "working_block list" where
  "WORKING_BLOCKS =
     [\<lparr>bsH = 8, bsM = 30, beH = 11, beM = 30\<rparr>,
      \<lparr>bsH = 16, bsM = 30, beH = 18, beM = 30\<rparr>,
      \<lparr>bsH = 20, bsM = 30, beH = 22, beM = 0\<rparr>]"

definition SLOT_STEP_MIN :: int where
  "SLOT_STEP_MIN = 5"

text \<open>
  The \<^verbatim>\<open>while\<close> loop of lines 129-132; a slot is the pair \<^verbatim>\<open>{ start, blockEnd }\<close>.
\<close>

function slots_from :: "DateTime \<Rightarrow> DateTime \<Rightarrow> (DateTime \<times> DateTime) list" where
  "slots_from current blockEnd =
     (if current \<le> plus_minutes blockEnd (- 1)
      then (current, blockEnd) # slots_from (plus_minutes current SLOT_STEP_MIN) blockEnd
      else [])"
  by pat_completeness auto
termination
  by (relation "measure (\<lambda>(c, e). nat (e - c))")
     (auto simp: plus_minutes_def SLOT_STEP_MIN_def MINUTE_def)

declare slots_from.simps [simp del]

fun slots_blocks :: "working_block list \<Rightarrow> DateTime \<Rightarrow> (DateTime \<times> DateTime) list" where
  "slots_blocks [] dayDateTime = []"
| "slots_blocks (blk # blks) dayDateTime =
     slots_from (plus_hm dayDateTime (bsH blk) (bsM blk)) (plus_hm dayDateTime (beH blk) (beM blk))
       @ slots_blocks blks dayDateTime"

definition generateSlotsForDay :: "DateTime \<Rightarrow> (DateTime \<times> DateTime) list" where
  "generateSlotsForDay dayDateTime = slots_blocks WORKING_BLOCKS dayDateTime"

fun fits_blocks :: "working_block list \<Rightarrow> DateTime \<Rightarrow> DateTime \<Rightarrow> DateTime \<Rightarrow> bool" where
  "fits_blocks [] day startDT endDT = False"
| "fits_blocks (blk # blks) day startDT endDT =
     (let blkStart = plus_hm day (bsH blk) (bsM blk);
          blkEnd = plus_hm day (beH blk) (beM blk)
      in if startDT \<ge> blkStart \<and> endDT \<le> blkEnd then True
         else fits_blocks blks day startDT endDT)"

definition fitsWithinBlock :: "DateTime \<Rightarrow> DateTime \<Rightarrow> bool" where
  "fitsWithinBlock startDT endDT = fits_blocks WORKING_BLOCKS (startOf_day startDT) startDT endDT"

subsection \<open>Forward search (\<^verbatim>\<open>findNextAvailableSlot\<close>, lines 149-177)\<close>

text \<open>
  \<^verbatim>\<open>start.plus({ minutes: duration })\<close>. luxon rejects a unit value that is not a
  number by throwing; \<open>None\<close> is that exception.
\<close>

datatype exn = InvalidArgumentError

fun plus_duration :: "DateTime \<Rightarrow> duration \<Rightarrow> DateTime option" where
  "plus_duration t (Minutes m) = Some (plus_minutes t m)"
| "plus_duration t NonNumeric = None"

text \<open>The inner loop of lines 161-174 over the slots of one day.\<close>

fun slot_loop ::
  "store \<Rightarrow> string \<Rightarrow> details \<Rightarrow> duration \<Rightarrow> DateTime \<Rightarrow> (DateTime \<times> DateTime) list
     \<Rightarrow> exn + (DateTime \<times> DateTime) option" where
  "slot_loop db st d durationMin now [] = Inr None"
| "slot_loop db st d durationMin now (s # ss) =
     (let start = fst s in
      if start < now \<and> hasSame_day start now then slot_loop db st d durationMin now ss
      else (case plus_duration start durationMin of
              None \<Rightarrow> Inl InvalidArgumentError
            | Some e \<Rightarrow>
                if \<not> fitsWithinBlock start e then slot_loop db st d durationMin now ss
                else if checkConflicts db start e st d = Ok then Inr (Some (start, e))
                else slot_loop db st d durationMin now ss))"

text \<open>
  The \<^verbatim>\<open>for\<close> loop of lines 154-175; \<open>day\<close> is the day of the previous round
  (of \<^verbatim>\<open>fromDT\<close> in round 0).
\<close>

function day_loop ::
  "store \<Rightarrow> string \<Rightarrow> details \<Rightarrow> duration \<Rightarrow> DateTime \<Rightarrow> bool \<Rightarrow> nat \<Rightarrow> nat \<Rightarrow> DateTime
     \<Rightarrow> exn + (DateTime \<times> DateTime) option" where
  "day_loop db st d durationMin now sameDayOnly maxDays dayOffset day =
     (if dayOffset \<le> maxDays then
        (let day' = (if dayOffset > 0 then plus_days day 1 else day) in
         if sameDayOnly \<and> dayOffset > 0 then Inr None
         else if is_weekend day' then
           day_loop db st d durationMin now sameDayOnly maxDays (Suc dayOffset) day'
         else (case slot_loop db st d durationMin now (generateSlotsForDay day') of
                 Inl x \<Rightarrow> Inl x
               | Inr (Some iv) \<Rightarrow> Inr (Some iv)
               | Inr None \<Rightarrow>
                   day_loop db st d durationMin now sameDayOnly maxDays (Suc dayOffset) day'))
      else Inr None)"
  by pat_completeness auto
termination
  by (relation "measure (\<lambda>(db, st, d, du, now, sdo, maxDays, dayOffset, day). Suc maxDays - dayOffset)")
     auto

declare day_loop.simps [simp del]

text \<open>
  \<open>now\<close> is the clock read at line 152; it is a parameter here, as the clock is not
  part of the model.
\<close>

definition findNextAvailableSlot ::
  "store \<Rightarrow> string \<Rightarrow> details \<Rightarrow> DateTime \<Rightarrow> DateTime \<Rightarrow> bool \<Rightarrow> nat
     \<Rightarrow> exn + (DateTime \<times> DateTime) option" where
  "findNextAvailableSlot db st d fromDT now sameDayOnly maxDays =
     (let durationMin = computeDuration st d;
          day = startOf_day fromDT
      in day_loop db st d durationMin now sameDayOnly maxDays 0 day)"

subsection \<open>The handlers (lines 192-232 and 242-274)\<close>

text \<open>A time or date field of a request: missing or empty, not a valid ISO text, or valid.\<close>

datatype time_field = Absent | Malformed | At DateTime

text \<open>
  The error responses, by the kinds of the specification: status 400 for an invalid
  request (lines 196, 206, 249, 255) and for an interval outside the blocks (line 208),
  409 with the conflict's message (line 210) and for no availability (line 220), 500 for
  a caught exception (line 230). \<open>Unanswered\<close> is an exception inside the detached
  \<^verbatim>\<open>async\<close> function of lines 258-269, which no handler catches, so no response is sent.
\<close>

datatype invalid = MissingServiceType | MalformedStartTime | MissingDate | MalformedDate

datatype error =
    InvalidRequest invalid
  | InvalidInterval
  | Conflict message
  | NoAvailability
  | InternalError
  | Unanswered

text \<open>The Hebrew label of the standing entry authorisation (line 202).\<close>

definition kavua_he :: string where
  "kavua_he =
     [CHR 0xD7, CHR 0x90, CHR 0xD7, CHR 0x99, CHR 0xD7, CHR 0xA9, CHR 0xD7, CHR 0x95,
      CHR 0xD7, CHR 0xA8, CHR 0x20, CHR 0xD7, CHR 0x9B, CHR 0xD7, CHR 0xA0, CHR 0xD7,
      CHR 0x99, CHR 0xD7, CHR 0xA1, CHR 0xD7, CHR 0x94, CHR 0x20, CHR 0xD7, CHR 0xA7,
      CHR 0xD7, CHR 0x91, CHR 0xD7, CHR 0x95, CHR 0xD7, CHR 0xA2]"

definition sameDayOnly_of :: "string \<Rightarrow> bool" where
  "sameDayOnly_of st =
     (let stLower = normalise st
      in str_includes stLower kavua_he \<or> stLower = kavua_he
         \<or> str_includes stLower (toLowerCase kavua_he))"

text \<open>
  \<^verbatim>\<open>POST /book\<close>. \<open>now\<close> is the clock, read at lines 212, 218 and 222 (and at 152).
  A success is the new table with \<^verbatim>\<open>id\<close>, \<^verbatim>\<open>startTime\<close> and \<^verbatim>\<open>endTime\<close> of the
  response.
\<close>

definition post_book ::
  "store \<Rightarrow> DateTime \<Rightarrow> string \<Rightarrow> time_field \<Rightarrow> details \<Rightarrow> string option \<Rightarrow> bool
     \<Rightarrow> error + (store \<times> nat \<times> DateTime \<times> DateTime)" where
  "post_book db now st startTimeField d ph dn =
     (if st = [] then Inl (InvalidRequest MissingServiceType)
      else
        (let duration = computeDuration st d;
             sameDayOnly = sameDayOnly_of st
         in case startTimeField of
              At start \<Rightarrow>
                (case plus_duration start duration of
                   None \<Rightarrow> Inl InternalError
                 | Some e \<Rightarrow>
                     if \<not> fitsWithinBlock start e then Inl InvalidInterval
                     else (case checkConflicts db start e st d of
                             Rejected m \<Rightarrow> Inl (Conflict m)
                           | Ok \<Rightarrow>
                               (let (db', i) = insert_appointment db st d start e now ph dn
                                in Inr (db', i, start, e))))
            | Malformed \<Rightarrow> Inl (InvalidRequest MalformedStartTime)
            | Absent \<Rightarrow>
                (case findNextAvailableSlot db st d now now sameDayOnly 30 of
                   Inl x \<Rightarrow> Inl InternalError
                 | Inr None \<Rightarrow> Inl NoAvailability
                 | Inr (Some (s, e)) \<Rightarrow>
                     (let (db', i) = insert_appointment db st d s e now ph dn
                      in Inr (db', i, s, e)))))"

text \<open>The loop of lines 260-267, collecting the admissible starts in order.\<close>

fun avail_loop ::
  "store \<Rightarrow> string \<Rightarrow> details \<Rightarrow> duration \<Rightarrow> DateTime \<Rightarrow> (DateTime \<times> DateTime) list
     \<Rightarrow> exn + DateTime list" where
  "avail_loop db st d duration now [] = Inr []"
| "avail_loop db st d duration now (s # ss) =
     (let start = fst s in
      if start < now \<and> hasSame_day start now then avail_loop db st d duration now ss
      else (case plus_duration start duration of
              None \<Rightarrow> Inl InvalidArgumentError
            | Some e \<Rightarrow>
                if \<not> fitsWithinBlock start e then avail_loop db st d duration now ss
                else (case avail_loop db st d duration now ss of
                        Inl x \<Rightarrow> Inl x
                      | Inr available \<Rightarrow>
                          if checkConflicts db start e st d = Ok then Inr (start # available)
                          else Inr available)))"

text \<open>\<^verbatim>\<open>GET /availability\<close>; a missing \<^verbatim>\<open>serviceType\<close> is the empty string.\<close>

definition get_availability ::
  "store \<Rightarrow> DateTime \<Rightarrow> time_field \<Rightarrow> string \<Rightarrow> details \<Rightarrow> error + DateTime list" where
  "get_availability db now dateField st d =
     (case dateField of
        Absent \<Rightarrow> Inl (InvalidRequest MissingDate)
      | Malformed \<Rightarrow> Inl (InvalidRequest MalformedDate)
      | At t \<Rightarrow>
          (let duration = computeDuration st d;
               dayStart = startOf_day t
           in if is_weekend dayStart then Inr []
              else (case avail_loop db st d duration now (generateSlotsForDay dayStart) of
                      Inl x \<Rightarrow> Inl Unanswered
                    | Inr available \<Rightarrow> Inr available)))"

section \<open>Notions of the specification\<close>

text \<open>
  A candidate start is admissible when the loops of lines 161-170 and 260-266 accept
  it for a duration of \<open>n\<close> minutes: it is not an earlier time of today, the interval
  fits a working block, and the conflict check passes.
\<close>

definition admissible :: "store \<Rightarrow> string \<Rightarrow> details \<Rightarrow> int \<Rightarrow> DateTime \<Rightarrow> DateTime \<Rightarrow> bool" where
  "admissible db st d n now start =
     (\<not> (start < now \<and> hasSame_day start now)
      \<and> fitsWithinBlock start (plus_minutes start n)
      \<and> checkConflicts db start (plus_minutes start n) st d = Ok)"

text \<open>\<open>k\<close> consecutive calendar days, the first being \<open>day\<close>.\<close>

fun days_from :: "nat \<Rightarrow> DateTime \<Rightarrow> DateTime list" where
  "days_from 0 day = []"
| "days_from (Suc k) day = day # days_from k (plus_days day 1)"

text \<open>
  The days of a search as the specification words them: the calendar days from the
  day of \<open>fromDT\<close>, at most \<open>maxDays + 1\<close> of them (only the first when
  \<open>sameDayOnly\<close>), without the weekend days.
\<close>

definition searched_days :: "bool \<Rightarrow> nat \<Rightarrow> DateTime \<Rightarrow> DateTime list" where
  "searched_days sameDayOnly maxDays fromDT =
     filter (\<lambda>day. \<not> is_weekend day)
       (days_from (if sameDayOnly then 1 else Suc maxDays) (startOf_day fromDT))"

definition candidate_slots :: "bool \<Rightarrow> nat \<Rightarrow> DateTime \<Rightarrow> (DateTime \<times> DateTime) list" where
  "candidate_slots sameDayOnly maxDays fromDT =
     concat (map generateSlotsForDay (searched_days sameDayOnly maxDays fromDT))"

text \<open>
  Rules 2 and 3 of the conflict checker: the candidate and an overlapping booking are
  both coded entries with a positive count in the same category.
\<close>

definition kidud_clash :: "details \<Rightarrow> appointment \<Rightarrow> bool" where
  "kidud_clash d r =
     (isKidud (normalise (serviceType r))
      \<and> ((0 < unit_count d ''sodi'' ''numS'' \<and> 0 < unit_count (details r) ''sodi'' ''numS'')
         \<or> (0 < unit_count d ''anan'' ''numA'' \<and> 0 < unit_count (details r) ''anan'' ''numA'')))"





section \<open>Example data\<close>

text \<open>
  Monday 1970-01-05 with the clock at 08:00, the Friday and the Saturday before it, and
  the tables that the bookings of the examples leave behind.
\<close>

definition example_day :: DateTime where "example_day = plus_days 0 4"
definition example_now :: DateTime where "example_now = plus_hm example_day 8 0"
definition friday :: DateTime where "friday = plus_days 0 1"
definition saturday :: DateTime where "saturday = plus_days 0 2"

definition t830 :: DateTime where "t830 = plus_hm example_day 8 30"
definition t835 :: DateTime where "t835 = plus_hm example_day 8 35"
definition t840 :: DateTime where "t840 = plus_hm example_day 8 40"
definition t845 :: DateTime where "t845 = plus_hm example_day 8 45"

definition example_store1 :: store where
  "example_store1 =
     \<lparr>rows = [\<lparr>rid = 1, serviceType = ''chul'', details = Map.empty, startTime = t830,
               endTime = t835, created_at = example_now, phone = None, is_done = False\<rparr>],
      lastID = 1\<rparr>"

definition example_store2 :: store where
  "example_store2 =
     \<lparr>rows = [\<lparr>rid = 1, serviceType = ''chul'', details = Map.empty, startTime = t830,
               endTime = t835, created_at = example_now, phone = None, is_done = False\<rparr>,
              \<lparr>rid = 2, serviceType = ''chul'', details = Map.empty, startTime = t830,
               endTime = t835, created_at = example_now, phone = None, is_done = False\<rparr>],
      lastID = 2\<rparr>"

definition kidud_store_S :: store where
  "kidud_store_S =
     \<lparr>rows = [\<lparr>rid = 1, serviceType = ''kidud'', details = [''sodi'' \<mapsto> JNum 1], startTime = t830,
               endTime = t840, created_at = example_now, phone = None, is_done = False\<rparr>],
      lastID = 1\<rparr>"

definition kidud_store_A :: store where
  "kidud_store_A =
     \<lparr>rows = [\<lparr>rid = 1, serviceType = ''kidud'', details = [''anan'' \<mapsto> JNum 1], startTime = t830,
               endTime = t840, created_at = example_now, phone = None, is_done = False\<rparr>],
      lastID = 1\<rparr>"

section \<open>Properties of the loops\<close>

lemmas time_defs = MINUTE_def HOUR_def DAY_def plus_minutes_def plus_hm_def plus_days_def
  startOf_day_def weekday_def is_weekend_def hasSame_day_def

lemmas string_defs = normalise_def toLowerCase_def toLowerCase_char_def trim_def is_ws_def
  isKidud_def kidud_he_def

lemmas example_defs = example_day_def example_now_def friday_def saturday_def
  t830_def t835_def t840_def t845_def empty_store_def
  example_store1_def example_store2_def kidud_store_S_def kidud_store_A_def

subsection \<open>The slot loops on a numeric duration\<close>

lemma slot_loop_Minutes:
  "slot_loop db st d (Minutes n) now ss =
     Inr (map_option (\<lambda>s. (s, plus_minutes s n)) (find (admissible db st d n now) (map fst ss)))"
  by (induction ss) (auto simp: admissible_def Let_def)

lemma avail_loop_Minutes:
  "avail_loop db st d (Minutes n) now ss = Inr (filter (admissible db st d n now) (map fst ss))"
  by (induction ss) (auto simp: admissible_def Let_def)

lemma slot_loop_append:
  "slot_loop db st d du now (xs @ ys) =
     (case slot_loop db st d du now xs of
        Inl x \<Rightarrow> Inl x
      | Inr (Some iv) \<Rightarrow> Inr (Some iv)
      | Inr None \<Rightarrow> slot_loop db st d du now ys)"
  by (induction xs) (auto simp: Let_def split: option.splits)


subsection \<open>The day loop visits the searched days\<close>

lemma day_loop_sameDay:
  "0 < k \<Longrightarrow> day_loop db st d du now True maxDays k day = Inr None"
  by (subst day_loop.simps) (simp add: Let_def)

lemma day_loop_rest:
  "0 < k \<Longrightarrow> m = Suc maxDays - k \<Longrightarrow>
   day_loop db st d du now False maxDays k day =
     slot_loop db st d du now
       (concat (map generateSlotsForDay
          (filter (\<lambda>day. \<not> is_weekend day) (days_from m (plus_days day 1)))))"
proof (induction m arbitrary: k day)
  case 0
  then have "\<not> k \<le> maxDays" by simp
  then show ?case using 0 by (subst day_loop.simps) simp
next
  case (Suc m)
  then have le: "k \<le> maxDays" and m: "m = Suc maxDays - Suc k" by simp_all
  have IH: "day_loop db st d du now False maxDays (Suc k) (plus_days day 1) =
     slot_loop db st d du now
       (concat (map generateSlotsForDay
          (filter (\<lambda>day. \<not> is_weekend day) (days_from m (plus_days (plus_days day 1) 1)))))"
    using Suc.IH[of "Suc k" "plus_days day 1"] m by simp
  show ?case
    using le Suc.prems(1)
    by (subst day_loop.simps) (simp add: Let_def IH slot_loop_append split: sum.splits option.splits)
qed

lemma day_loop_0:
  "day_loop db st d du now sdo maxDays 0 day =
     (if is_weekend day then day_loop db st d du now sdo maxDays (Suc 0) day
      else (case slot_loop db st d du now (generateSlotsForDay day) of
              Inl x \<Rightarrow> Inl x
            | Inr (Some iv) \<Rightarrow> Inr (Some iv)
            | Inr None \<Rightarrow> day_loop db st d du now sdo maxDays (Suc 0) day))"
  by (subst day_loop.simps) (simp add: Let_def)

lemma findNextAvailableSlot_candidates:
  "findNextAvailableSlot db st d fromDT now sameDayOnly maxDays =
     slot_loop db st d (computeDuration st d) now (candidate_slots sameDayOnly maxDays fromDT)"
proof (cases sameDayOnly)
  case True
  then show ?thesis
    by (simp add: findNextAvailableSlot_def candidate_slots_def searched_days_def Let_def
          day_loop_0 day_loop_sameDay split: sum.splits option.splits)
next
  case False
  have r: "day_loop db st d (computeDuration st d) now False maxDays (Suc 0) (startOf_day fromDT) =
     slot_loop db st d (computeDuration st d) now
       (concat (map generateSlotsForDay
          (filter (\<lambda>day. \<not> is_weekend day) (days_from maxDays (plus_days (startOf_day fromDT) 1)))))"
    by (rule day_loop_rest) simp_all
  show ?thesis using False
    by (simp add: findNextAvailableSlot_def candidate_slots_def searched_days_def Let_def
          day_loop_0 r slot_loop_append split: sum.splits option.splits)
qed

subsection \<open>The calendar\<close>



lemma generateSlotsForDay_eq:
  "generateSlotsForDay day =
     slots_from (day + 30600000) (day + 41400000)
     @ slots_from (day + 59400000) (day + 66600000)
     @ slots_from (day + 73800000) (day + 79200000)"
  by (simp add: generateSlotsForDay_def WORKING_BLOCKS_def plus_hm_def HOUR_def MINUTE_def
        add.commute)



lemma generateSlotsForDay_Cons:
  "generateSlotsForDay day =
     (day + 30600000, day + 41400000) #
       (slots_from (day + 30900000) (day + 41400000)
        @ slots_from (day + 59400000) (day + 66600000)
        @ slots_from (day + 73800000) (day + 79200000))"
  by (subst generateSlotsForDay_eq, subst slots_from.simps)
     (simp add: plus_minutes_def MINUTE_def SLOT_STEP_MIN_def add.commute)




lemma length_days_from: "length (days_from k day) = k"
  by (induction k day rule: days_from.induct) auto

lemma days_from_map: "days_from k day = map (\<lambda>j. plus_days day (int j)) [0..<k]"
proof (induction k arbitrary: day)
  case 0
  show ?case by simp
next
  case (Suc k)
  have "map (\<lambda>j. plus_days day (int j)) [0..<Suc k]
          = plus_days day 0 # map (\<lambda>j. plus_days day (int (Suc j))) [0..<k]"
    by (simp add: upt_conv_Cons map_Suc_upt[symmetric] del: upt_Suc)
  also have "\<dots> = day # map (\<lambda>j. plus_days (plus_days day 1) (int j)) [0..<k]"
    by (simp add: plus_days_def algebra_simps)
  finally show ?case using Suc by simp
qed









lemma candidate_slots_first_day:
  "\<not> is_weekend (startOf_day fromDT) \<Longrightarrow>
   candidate_slots sdo maxDays fromDT =
     generateSlotsForDay (startOf_day fromDT)
     @ concat (map generateSlotsForDay (filter (\<lambda>day. \<not> is_weekend day)
         (days_from (if sdo then 0 else maxDays) (plus_days (startOf_day fromDT) 1))))"
  by (cases sdo) (simp_all add: candidate_slots_def searched_days_def)







subsection \<open>The conflict check\<close>

lemma kidud_loop_Ok:
  "(kidud_loop (unit_count d ''sodi'' ''numS'') (unit_count d ''anan'' ''numA'') rs = Ok)
     = (\<not> list_ex (kidud_clash d) rs)"
  by (induction rs) (auto simp: kidud_clash_def Let_def)

lemma kidud_loop_is_done:
  "kidud_loop a b (map (\<lambda>r. r\<lparr>is_done := f r\<rparr>) rs) = kidud_loop a b rs"
  by (induction rs) (simp_all add: Let_def)

lemma queryOverlapping_is_done:
  "queryOverlapping (db\<lparr>rows := map (\<lambda>r. r\<lparr>is_done := f r\<rparr>) (rows db)\<rparr>) s e
     = map (\<lambda>r. r\<lparr>is_done := f r\<rparr>) (queryOverlapping db s e)"
  by (simp add: queryOverlapping_def filter_map comp_def)

lemma checkConflicts_generic:
  "\<not> isKidud (normalise st) \<Longrightarrow>
   checkConflicts db s e st d =
     (if 2 \<le> length (queryOverlapping db s e) then Rejected TwoOverlapping else Ok)"
  by (simp add: checkConflicts_def Let_def)

lemma checkConflicts_empty: "rows db = [] \<Longrightarrow> checkConflicts db s e st d = Ok"
  by (simp add: checkConflicts_def queryOverlapping_def Let_def)

subsection \<open>Durations\<close>

lemma isKidud_nonempty: "isKidud (normalise st) \<Longrightarrow> st \<noteq> []"
  by (auto simp: isKidud_def normalise_def toLowerCase_def trim_def kidud_he_def)

lemma kidud_numeric:
  "isKidud (normalise st) \<Longrightarrow>
   computeDuration st d =
     Minutes (max (max (unit_count d ''sodi'' ''numS'' * 10) (unit_count d ''anan'' ''numA'' * 10)) 10)"
  by (simp add: computeDuration_def Let_def)


lemma kidud_is_kidud: "isKidud (normalise ''kidud'')"
  by (simp add: string_defs)

lemma chul_not_kidud: "\<not> isKidud (normalise ''chul'')"
  by (simp add: string_defs)

lemma chul_duration: "computeDuration ''chul'' d = Minutes 5"
  by (simp add: computeDuration_def chul_not_kidud map_get_def duration_map_def)

lemma chul_sameDay: "\<not> sameDayOnly_of ''chul''"
  by (simp add: sameDayOnly_of_def string_defs kavua_he_def)

lemma kavua_duration: "computeDuration kavua_he d = Minutes 5"
  by (simp add: computeDuration_def string_defs kavua_he_def map_get_def duration_map_def)

lemma kavua_sameDay: "sameDayOnly_of kavua_he"
  by (simp add: sameDayOnly_of_def string_defs kavua_he_def)

lemma kavua_nonempty: "kavua_he \<noteq> []"
  by (simp add: kavua_he_def)

lemma kidud_durations:
  "computeDuration ''kidud'' [''sodi'' \<mapsto> JNum 1] = Minutes 10"
  "computeDuration ''kidud'' [''sodi'' \<mapsto> JNum 2] = Minutes 20"
  "computeDuration ''kidud'' [''anan'' \<mapsto> JNum 1] = Minutes 10"
  by (simp_all add: kidud_numeric kidud_is_kidud unit_count_def js_or_def get_field_def)

lemma kidud_units:
  "unit_count [''sodi'' \<mapsto> JNum 1] ''sodi'' ''numS'' = 1"
  "unit_count [''sodi'' \<mapsto> JNum 1] ''anan'' ''numA'' = 0"
  "unit_count [''sodi'' \<mapsto> JNum 2] ''sodi'' ''numS'' = 2"
  "unit_count [''anan'' \<mapsto> JNum 1] ''sodi'' ''numS'' = 0"
  "unit_count [''anan'' \<mapsto> JNum 1] ''anan'' ''numA'' = 1"
  by (simp_all add: unit_count_def js_or_def get_field_def)

subsection \<open>The handlers on a numeric duration\<close>

lemma post_book_explicit:
  "st \<noteq> [] \<Longrightarrow> computeDuration st d = Minutes n \<Longrightarrow>
   post_book db now st (At t) d ph dn =
     (if \<not> fitsWithinBlock t (plus_minutes t n) then Inl InvalidInterval
      else (case checkConflicts db t (plus_minutes t n) st d of
              Rejected m \<Rightarrow> Inl (Conflict m)
            | Ok \<Rightarrow> Inr (fst (insert_appointment db st d t (plus_minutes t n) now ph dn),
                          Suc (lastID db), t, plus_minutes t n)))"
  by (simp add: post_book_def Let_def insert_appointment_def split: conflict_result.splits)

lemma post_book_explicit_interval:
  assumes "st \<noteq> []" and "computeDuration st d = Minutes n"
      and "post_book db now st (At t) d ph dn = Inr (db', i, s, e)"
  shows "s = t \<and> e - s = n * MINUTE \<and> fitsWithinBlock s e
         \<and> checkConflicts db s e st d = Ok
         \<and> rows db' = rows db @ [\<lparr>rid = i, serviceType = st, details = d, startTime = s,
                                     endTime = e, created_at = now, phone = ph, is_done = dn\<rparr>]"
  using assms(3)
  by (auto simp: post_book_explicit[OF assms(1,2)] insert_appointment_def plus_minutes_def Let_def
           split: if_splits conflict_result.splits)

lemma post_book_auto:
  "st \<noteq> [] \<Longrightarrow> computeDuration st d = Minutes n \<Longrightarrow>
   post_book db now st Absent d ph dn =
     (case find (admissible db st d n now) (map fst (candidate_slots (sameDayOnly_of st) 30 now)) of
        None \<Rightarrow> Inl NoAvailability
      | Some s \<Rightarrow> Inr (fst (insert_appointment db st d s (plus_minutes s n) now ph dn),
                       Suc (lastID db), s, plus_minutes s n))"
  by (simp add: post_book_def Let_def findNextAvailableSlot_candidates slot_loop_Minutes
        insert_appointment_def split: option.splits)


lemma get_availability_Minutes:
  "computeDuration st d = Minutes n \<Longrightarrow>
   get_availability db now (At t) st d =
     (if is_weekend (startOf_day t) then Inr []
      else Inr (filter (admissible db st d n now) (map fst (generateSlotsForDay (startOf_day t)))))"
  by (simp add: get_availability_def Let_def avail_loop_Minutes)

subsection \<open>The examples\<close>

lemma example_slots:
  "map fst (generateSlotsForDay (startOf_day example_day)) =
     t830 # t835 # map fst (slots_from (plus_hm example_day 8 40) (plus_hm example_day 11 30)
        @ slots_from (example_day + 59400000) (example_day + 66600000)
        @ slots_from (example_day + 73800000) (example_day + 79200000))"
  apply (simp add: generateSlotsForDay_Cons)
  apply (subst slots_from.simps)
  apply (simp add: example_defs time_defs SLOT_STEP_MIN_def)
  done

lemma adm0: "admissible empty_store ''chul'' Map.empty 5 example_now t830"
  by (simp add: admissible_def fitsWithinBlock_def WORKING_BLOCKS_def checkConflicts_generic
        chul_not_kidud queryOverlapping_def example_defs time_defs)

lemma adm1:
  "admissible example_store1 ''chul'' Map.empty 5 example_now t830"
  "admissible example_store1 ''chul'' Map.empty 5 example_now t835"
  by (simp_all add: admissible_def fitsWithinBlock_def WORKING_BLOCKS_def checkConflicts_generic
        chul_not_kidud queryOverlapping_def example_defs time_defs)

lemma adm2:
  "\<not> admissible example_store2 ''chul'' Map.empty 5 example_now t830"
  "admissible example_store2 ''chul'' Map.empty 5 example_now t835"
  by (simp_all add: admissible_def fitsWithinBlock_def WORKING_BLOCKS_def checkConflicts_generic
        chul_not_kidud queryOverlapping_def example_defs time_defs)

lemma example_not_weekend: "\<not> is_weekend (startOf_day example_day)"
  by (simp add: example_defs time_defs)

lemma example_now_day: "startOf_day example_now = example_day"
  by (simp add: example_defs time_defs)

lemma example_candidates:
  "map fst (candidate_slots False 30 example_now) =
     t830 # tl (map fst (candidate_slots False 30 example_now))"
proof -
  have "\<not> is_weekend (startOf_day example_now)"
    by (simp add: example_defs time_defs)
  from candidate_slots_first_day[OF this] show ?thesis
    by (simp add: example_now_day generateSlotsForDay_Cons) (simp add: example_defs time_defs)
qed


lemma example_book:
  "post_book empty_store example_now ''chul'' Absent Map.empty None False
       = Inr (example_store1, 1, t830, t835)"
  apply (simp add: post_book_auto[OF _ chul_duration] chul_sameDay)
  apply (subst example_candidates)
  apply (simp add: adm0)
  apply (simp add: insert_appointment_def example_defs time_defs)
  done

lemma fits_examples:
  "fitsWithinBlock t830 (plus_minutes t830 5)"
  "fitsWithinBlock t830 (plus_minutes t830 10)"
  "fitsWithinBlock t835 (plus_minutes t835 10)"
  "fitsWithinBlock t835 (plus_minutes t835 20)"
  "fitsWithinBlock (plus_hm friday 8 30) (plus_minutes (plus_hm friday 8 30) 5)"
  by (simp_all add: fitsWithinBlock_def WORKING_BLOCKS_def example_defs time_defs)

section \<open>The claims\<close>

subsection \<open>C1: the worked example\<close>

text \<open>
  Claim C1, amended. Monday, the clock at 08:00, an empty table, a service of 5
  minutes. The availability of the day starts at 08:30 and automatic booking books
  [08:30, 08:35). A second availability request for the day still lists 08:30 first
  and 08:35 next: one overlapping booking is below the cap of two. A second automatic
  booking takes [08:30, 08:35) again; only then does the availability start at 08:35
  and omit 08:30.
\<close>

theorem worked_example:
  "map_sum id (take 1)
     (get_availability empty_store example_now (At example_day) ''chul'' Map.empty) = Inr [t830]
   \<and> post_book empty_store example_now ''chul'' Absent Map.empty None False
       = Inr (example_store1, 1, t830, t835)
   \<and> map_sum id (take 2)
     (get_availability example_store1 example_now (At example_day) ''chul'' Map.empty)
       = Inr [t830, t835]
   \<and> post_book example_store1 example_now ''chul'' Absent Map.empty None False
       = Inr (example_store2, 2, t830, t835)
   \<and> map_sum id (take 1)
     (get_availability example_store2 example_now (At example_day) ''chul'' Map.empty) = Inr [t835]
   \<and> map_sum id (\<lambda>available. t830 \<in> set available)
     (get_availability example_store2 example_now (At example_day) ''chul'' Map.empty) = Inr False"
proof -
  have a0: "map_sum id (take 1)
     (get_availability empty_store example_now (At example_day) ''chul'' Map.empty) = Inr [t830]"
    by (simp add: get_availability_Minutes[OF chul_duration] example_not_weekend example_slots adm0)
  have a1: "map_sum id (take 2)
     (get_availability example_store1 example_now (At example_day) ''chul'' Map.empty)
       = Inr [t830, t835]"
    by (simp add: get_availability_Minutes[OF chul_duration] example_not_weekend example_slots adm1)
  have a2: "map_sum id (take 1)
     (get_availability example_store2 example_now (At example_day) ''chul'' Map.empty) = Inr [t835]"
    by (simp add: get_availability_Minutes[OF chul_duration] example_not_weekend example_slots adm2)
  have a3: "map_sum id (\<lambda>available. t830 \<in> set available)
     (get_availability example_store2 example_now (At example_day) ''chul'' Map.empty) = Inr False"
    by (simp add: get_availability_Minutes[OF chul_duration] example_not_weekend adm2)
  have b1: "post_book example_store1 example_now ''chul'' Absent Map.empty None False
       = Inr (example_store2, 2, t830, t835)"
    apply (simp add: post_book_auto[OF _ chul_duration] chul_sameDay)
    apply (subst example_candidates)
    apply (simp add: adm1)
    apply (simp add: insert_appointment_def example_defs time_defs)
    done
  from a0 a1 a2 a3 example_book b1 show ?thesis by blast
qed

text \<open>
  The claim as stated fails: after the booking of [08:30, 08:35) the earliest start
  that the availability of the day lists is still 08:30, not 08:35.
\<close>

theorem worked_example_counterexample:
  "post_book empty_store example_now ''chul'' Absent Map.empty None False
     = Inr (example_store1, 1, t830, t835)
   \<and> map_sum id (take 1)
       (get_availability example_store1 example_now (At example_day) ''chul'' Map.empty)
     = Inr [t830]"
  by (simp add: example_book get_availability_Minutes[OF chul_duration] example_not_weekend
        example_slots adm1)

subsection \<open>C2: the cap of two overlapping bookings\<close>



subsection \<open>C3: coded-entry exclusivity\<close>

text \<open>
  Claim C3. A coded-entry request whose interval fits a block and overlaps a stored
  coded-entry booking \<open>r\<close> fails with \<open>Conflict\<close> when both have a positive
  primary count, and also when both have a positive secondary count. When \<open>r\<close> is
  the only overlapping booking and one of the two has only a positive primary count
  and the other only a positive secondary count, the request is persisted: the two
  categories are independent.
\<close>

theorem kidud_exclusivity:
  assumes "isKidud (normalise st)"
      and "computeDuration st d = Minutes n"
      and "fitsWithinBlock t (plus_minutes t n)"
      and "r \<in> set (rows db)"
      and "isKidud (normalise (serviceType r))"
      and "startTime r < plus_minutes t n"
      and "t < endTime r"
  shows "(0 < unit_count d ''sodi'' ''numS'' \<and> 0 < unit_count (details r) ''sodi'' ''numS''
            \<longrightarrow> (\<exists>m. post_book db now st (At t) d ph dn = Inl (Conflict m)))
       \<and> (0 < unit_count d ''anan'' ''numA'' \<and> 0 < unit_count (details r) ''anan'' ''numA''
            \<longrightarrow> (\<exists>m. post_book db now st (At t) d ph dn = Inl (Conflict m)))
       \<and> (queryOverlapping db t (plus_minutes t n) = [r]
          \<and> ((0 < unit_count (details r) ''sodi'' ''numS'' \<and> \<not> 0 < unit_count (details r) ''anan'' ''numA''
               \<and> \<not> 0 < unit_count d ''sodi'' ''numS'' \<and> 0 < unit_count d ''anan'' ''numA'')
              \<or> (\<not> 0 < unit_count (details r) ''sodi'' ''numS'' \<and> 0 < unit_count (details r) ''anan'' ''numA''
               \<and> 0 < unit_count d ''sodi'' ''numS'' \<and> \<not> 0 < unit_count d ''anan'' ''numA''))
            \<longrightarrow> post_book db now st (At t) d ph dn
                  = Inr (fst (insert_appointment db st d t (plus_minutes t n) now ph dn),
                         Suc (lastID db), t, plus_minutes t n))"
proof -
  let ?e = "plus_minutes t n"
  have ne: "st \<noteq> []" using assms(1) by (rule isKidud_nonempty)
  have mem: "r \<in> set (queryOverlapping db t ?e)"
    using assms(4,6,7) by (simp add: queryOverlapping_def)
  have rej: "\<exists>m. checkConflicts db t ?e st d = Rejected m" if "kidud_clash d r"
  proof -
    from that mem have "list_ex (kidud_clash d) (queryOverlapping db t ?e)"
      by (auto simp: list_ex_iff)
    then have "checkConflicts db t ?e st d \<noteq> Ok"
      using assms(1) by (simp add: checkConflicts_def Let_def kidud_loop_Ok)
    then show ?thesis by (cases "checkConflicts db t ?e st d") auto
  qed
  have 1: "0 < unit_count d ''sodi'' ''numS'' \<and> 0 < unit_count (details r) ''sodi'' ''numS''
            \<longrightarrow> (\<exists>m. post_book db now st (At t) d ph dn = Inl (Conflict m))"
    using rej assms(3,5) by (auto simp: post_book_explicit[OF ne assms(2)] kidud_clash_def)
  have 2: "0 < unit_count d ''anan'' ''numA'' \<and> 0 < unit_count (details r) ''anan'' ''numA''
            \<longrightarrow> (\<exists>m. post_book db now st (At t) d ph dn = Inl (Conflict m))"
    using rej assms(3,5) by (auto simp: post_book_explicit[OF ne assms(2)] kidud_clash_def)
  have ok: "checkConflicts db t ?e st d = Ok"
    if "queryOverlapping db t ?e = [r]" "\<not> kidud_clash d r"
    using that assms(1)
    by (simp add: checkConflicts_def Let_def kidud_loop_Ok del: kidud_loop.simps)
  have 3: "queryOverlapping db t (plus_minutes t n) = [r]
          \<and> ((0 < unit_count (details r) ''sodi'' ''numS'' \<and> \<not> 0 < unit_count (details r) ''anan'' ''numA''
               \<and> \<not> 0 < unit_count d ''sodi'' ''numS'' \<and> 0 < unit_count d ''anan'' ''numA'')
              \<or> (\<not> 0 < unit_count (details r) ''sodi'' ''numS'' \<and> 0 < unit_count (details r) ''anan'' ''numA''
               \<and> 0 < unit_count d ''sodi'' ''numS'' \<and> \<not> 0 < unit_count d ''anan'' ''numA''))
            \<longrightarrow> post_book db now st (At t) d ph dn
                  = Inr (fst (insert_appointment db st d t (plus_minutes t n) now ph dn),
                         Suc (lastID db), t, plus_minutes t n)"
  proof (intro impI, elim conjE)
    assume q: "queryOverlapping db t (plus_minutes t n) = [r]"
      and c: "(0 < unit_count (details r) ''sodi'' ''numS'' \<and> \<not> 0 < unit_count (details r) ''anan'' ''numA''
               \<and> \<not> 0 < unit_count d ''sodi'' ''numS'' \<and> 0 < unit_count d ''anan'' ''numA'')
              \<or> (\<not> 0 < unit_count (details r) ''sodi'' ''numS'' \<and> 0 < unit_count (details r) ''anan'' ''numA''
               \<and> 0 < unit_count d ''sodi'' ''numS'' \<and> \<not> 0 < unit_count d ''anan'' ''numA'')"
    from c have "\<not> kidud_clash d r" by (auto simp: kidud_clash_def)
    from ok[OF q this] assms(3) show "post_book db now st (At t) d ph dn
                  = Inr (fst (insert_appointment db st d t (plus_minutes t n) now ph dn),
                         Suc (lastID db), t, plus_minutes t n)"
      by (simp add: post_book_explicit[OF ne assms(2)])
  qed
  from 1 2 3 show ?thesis by blast
qed

text \<open>
  Two coded-entry bookings one after the other on an empty table: the first is
  persisted in each case; the second fails for primary against primary and for
  secondary against secondary, and is persisted for secondary against primary.
\<close>

theorem kidud_exclusivity_witness:
  "post_book empty_store example_now ''kidud'' (At t830) [''sodi'' \<mapsto> JNum 1] None False
     = Inr (kidud_store_S, 1, t830, t840)
   \<and> (\<exists>m. post_book kidud_store_S example_now ''kidud'' (At t835) [''sodi'' \<mapsto> JNum 2] None False
            = Inl (Conflict m))
   \<and> (\<exists>m. post_book kidud_store_A example_now ''kidud'' (At t835) [''anan'' \<mapsto> JNum 1] None False
            = Inl (Conflict m))
   \<and> post_book kidud_store_S example_now ''kidud'' (At t835) [''anan'' \<mapsto> JNum 1] None False
       = Inr (fst (insert_appointment kidud_store_S ''kidud'' [''anan'' \<mapsto> JNum 1] t835 t845
                     example_now None False), 2, t835, t845)"
proof -
  let ?rS = "\<lparr>rid = 1, serviceType = ''kidud'', details = [''sodi'' \<mapsto> JNum 1], startTime = t830,
               endTime = t840, created_at = example_now, phone = None, is_done = False\<rparr>"
  let ?rA = "\<lparr>rid = 1, serviceType = ''kidud'', details = [''anan'' \<mapsto> JNum 1], startTime = t830,
               endTime = t840, created_at = example_now, phone = None, is_done = False\<rparr>"
  have e: "plus_minutes t835 10 = t845" "plus_minutes t830 10 = t840"
    by (simp_all add: example_defs time_defs)
  have first: "post_book empty_store example_now ''kidud'' (At t830) [''sodi'' \<mapsto> JNum 1] None False
     = Inr (kidud_store_S, 1, t830, t840)"
  proof -
    have "checkConflicts empty_store t830 t840 ''kidud'' [''sodi'' \<mapsto> JNum 1] = Ok"
      by (simp add: checkConflicts_empty empty_store_def)
    with fits_examples(2) show ?thesis
      by (simp add: post_book_explicit[OF _ kidud_durations(1)] e insert_appointment_def
            kidud_store_S_def empty_store_def)
  qed
  have mS: "?rS \<in> set (rows kidud_store_S)" and mA: "?rA \<in> set (rows kidud_store_A)"
    by (simp_all add: kidud_store_S_def kidud_store_A_def)
  have kS: "isKidud (normalise (serviceType ?rS))" and kA: "isKidud (normalise (serviceType ?rA))"
    by (simp_all add: kidud_is_kidud)
  have oS: "startTime ?rS < plus_minutes t835 10" "t835 < endTime ?rS"
    and oS2: "startTime ?rS < plus_minutes t835 20" "t835 < endTime ?rS"
    and oA: "startTime ?rA < plus_minutes t835 10" "t835 < endTime ?rA"
    by (simp_all add: example_defs time_defs)
  have q: "queryOverlapping kidud_store_S t835 (plus_minutes t835 10) = [?rS]"
    by (simp add: queryOverlapping_def example_defs time_defs)
  note a = kidud_exclusivity[OF kidud_is_kidud kidud_durations(2) fits_examples(4) mS kS oS2,
      of example_now None False]
  note b = kidud_exclusivity[OF kidud_is_kidud kidud_durations(3) fits_examples(3) mA kA oA,
      of example_now None False]
  note c = kidud_exclusivity[OF kidud_is_kidud kidud_durations(3) fits_examples(3) mS kS oS,
      of example_now None False]
  from a have 1: "\<exists>m. post_book kidud_store_S example_now ''kidud'' (At t835) [''sodi'' \<mapsto> JNum 2] None False
            = Inl (Conflict m)"
    by (simp add: kidud_units)
  from b have 2: "\<exists>m. post_book kidud_store_A example_now ''kidud'' (At t835) [''anan'' \<mapsto> JNum 1] None False
            = Inl (Conflict m)"
    by (simp add: kidud_units)
  from c q have 3: "post_book kidud_store_S example_now ''kidud'' (At t835) [''anan'' \<mapsto> JNum 1] None False
       = Inr (fst (insert_appointment kidud_store_S ''kidud'' [''anan'' \<mapsto> JNum 1] t835 t845
                     example_now None False), 2, t835, t845)"
    by (simp add: kidud_units e) (simp add: kidud_store_S_def)
  from first 1 2 3 show ?thesis by blast
qed

subsection \<open>C4: the duration of a coded entry\<close>



subsection \<open>C5: weekend days\<close>




subsection \<open>C6: automatic booking on an empty table\<close>




subsection \<open>C7: explicit booking\<close>

text \<open>
  Claim C7, at an input where the code departs from it. The service type
  \<^verbatim>\<open>constructor\<close> is in no key of the duration table and is no coded entry, so
  its duration should be the 5 minutes of an unknown type, as the loop over the
  table's own keys (lines 86-88) would find. But it names a member that the table
  object inherits, and line 84 returns that member. The interval [08:30, 08:35) of
  Monday would fit a block and meet no conflict on an empty table; instead the
  candidate interval cannot be built and the explicit request ends in the
  internal-error response: it fails neither with \<open>InvalidInterval\<close> nor with
  \<open>Conflict\<close>, and nothing is persisted. (For every service type whose duration is a
  number, \<open>post_book_explicit\<close> and \<open>post_book_explicit_interval\<close> show the steps of
  the claim.)
\<close>

theorem inherited_member_booking:
  "map_of duration_map ''constructor'' = None
   \<and> lookup_lower duration_map (normalise ''constructor'') = None
   \<and> \<not> isKidud (normalise ''constructor'')
   \<and> computeDuration ''constructor'' Map.empty = NonNumeric
   \<and> fitsWithinBlock t830 (plus_minutes t830 5)
   \<and> checkConflicts empty_store t830 (plus_minutes t830 5) ''constructor'' Map.empty = Ok
   \<and> post_book empty_store example_now ''constructor'' (At t830) Map.empty None False
       = Inl InternalError"
proof -
  have k: "\<not> isKidud (normalise ''constructor'')"
    by (simp add: string_defs)
  have m: "map_of duration_map ''constructor'' = None"
    by (simp add: duration_map_def)
  have l: "lookup_lower duration_map (normalise ''constructor'') = None"
    by (simp add: duration_map_def string_defs)
  have c: "computeDuration ''constructor'' Map.empty = NonNumeric"
    by (simp add: computeDuration_def k map_get_def m Object_prototype_keys_def)
  have p: "post_book empty_store example_now ''constructor'' (At t830) Map.empty None False
       = Inl InternalError"
    by (simp add: post_book_def c)
  have o: "checkConflicts empty_store t830 (plus_minutes t830 5) ''constructor'' Map.empty = Ok"
    by (simp add: checkConflicts_empty empty_store_def)
  from k m l c p o fits_examples(1) show ?thesis by blast
qed

subsection \<open>C8: the bounded horizon\<close>

text \<open>
  Claim C8. The forward search is the slot loop over the slots of the searched days:
  the days from the day of \<open>fromDT\<close>, at most \<open>maxDays + 1\<close> of them and only the
  first when \<open>sameDayOnly\<close>, without the weekend days. When none of their slots is
  admissible the search returns nothing, and automatic booking then fails with
  \<open>NoAvailability\<close>. The search always returns: \<open>day_loop\<close> is defined with the
  measure \<open>maxDays + 1 - dayOffset\<close>.
\<close>

theorem search_horizon:
  "findNextAvailableSlot db st d fromDT now sdo maxDays
     = slot_loop db st d (computeDuration st d) now
         (concat (map generateSlotsForDay (searched_days sdo maxDays fromDT)))
   \<and> searched_days sdo maxDays fromDT
       = filter (\<lambda>day. \<not> is_weekend day)
           (map (\<lambda>j. plus_days (startOf_day fromDT) (int j)) [0..<(if sdo then 1 else maxDays + 1)])
   \<and> length (searched_days sdo maxDays fromDT) \<le> maxDays + 1
   \<and> (st \<noteq> [] \<and> findNextAvailableSlot db st d now now (sameDayOnly_of st) 30 = Inr None
        \<longrightarrow> post_book db now st Absent d ph dn = Inl NoAvailability)
   \<and> (computeDuration st d = Minutes n
        \<and> (\<forall>s \<in> fst ` set (concat (map generateSlotsForDay (searched_days sdo maxDays fromDT))).
              \<not> admissible db st d n now s)
        \<longrightarrow> findNextAvailableSlot db st d fromDT now sdo maxDays = Inr None)"
proof -
  have 1: "findNextAvailableSlot db st d fromDT now sdo maxDays
     = slot_loop db st d (computeDuration st d) now
         (concat (map generateSlotsForDay (searched_days sdo maxDays fromDT)))"
    by (simp add: findNextAvailableSlot_candidates candidate_slots_def)
  have 2: "searched_days sdo maxDays fromDT
       = filter (\<lambda>day. \<not> is_weekend day)
           (map (\<lambda>j. plus_days (startOf_day fromDT) (int j)) [0..<(if sdo then 1 else maxDays + 1)])"
    unfolding searched_days_def days_from_map by simp
  have "length (searched_days sdo maxDays fromDT)
          \<le> length (days_from (if sdo then 1 else Suc maxDays) (startOf_day fromDT))"
    unfolding searched_days_def by (rule length_filter_le)
  then have 3: "length (searched_days sdo maxDays fromDT) \<le> maxDays + 1"
    by (simp add: length_days_from split: if_splits)
  have 4: "st \<noteq> [] \<and> findNextAvailableSlot db st d now now (sameDayOnly_of st) 30 = Inr None
        \<longrightarrow> post_book db now st Absent d ph dn = Inl NoAvailability"
    by (simp add: post_book_def Let_def)
  have 5: "computeDuration st d = Minutes n
        \<and> (\<forall>s \<in> fst ` set (concat (map generateSlotsForDay (searched_days sdo maxDays fromDT))).
              \<not> admissible db st d n now s)
        \<longrightarrow> findNextAvailableSlot db st d fromDT now sdo maxDays = Inr None"
    by (auto simp: 1 slot_loop_Minutes find_None_iff)
  from 1 2 3 4 5 show ?thesis by blast
qed

theorem search_horizon_witness:
  "kavua_he \<noteq> []
   \<and> findNextAvailableSlot empty_store kavua_he Map.empty saturday saturday True 30 = Inr None
   \<and> searched_days True 30 saturday = []
   \<and> searched_days False 2 (plus_hm friday 9 0) = [plus_days friday 2]
   \<and> post_book empty_store saturday kavua_he Absent Map.empty None False = Inl NoAvailability"
proof -
  have s: "searched_days True 30 saturday = []"
    "searched_days False 2 (plus_hm friday 9 0) = [plus_days friday 2]"
    by (simp_all add: searched_days_def example_defs time_defs numeral_3_eq_3)
  with kavua_nonempty kavua_sameDay kavua_duration[of Map.empty]
    search_horizon[where db = empty_store and st = kavua_he and d = Map.empty
      and fromDT = saturday and now = saturday and sdo = True and maxDays = 30
      and ph = None and dn = False and n = 5]
    search_horizon[where db = empty_store and st = kavua_he and d = Map.empty
      and fromDT = "plus_hm friday 9 0" and now = saturday and sdo = False and maxDays = 2
      and ph = None and dn = False and n = 5]
  show ?thesis by simp
qed

subsection \<open>C9: explicit booking on a weekend day\<close>



subsection \<open>C10: the done flag\<close>

text \<open>
  Claim C10. The conflict check does not read the done flag: whatever the flags of the
  stored bookings are set to, its result is the same, so a booking marked done still
  counts for the cap of two and for coded-entry exclusivity.
\<close>

theorem done_flag_ignored:
  "checkConflicts (db\<lparr>rows := map (\<lambda>r. r\<lparr>is_done := f r\<rparr>) (rows db)\<rparr>) s e st d
     = checkConflicts db s e st d"
  by (simp add: checkConflicts_def Let_def queryOverlapping_is_done kidud_loop_is_done)

theorem done_flag_ignored_witness:
  "checkConflicts (example_store2\<lparr>rows := map (\<lambda>r. r\<lparr>is_done := True\<rparr>) (rows example_store2)\<rparr>)
      t830 t835 ''chul'' Map.empty = Rejected TwoOverlapping"
proof -
  have "checkConflicts example_store2 t830 t835 ''chul'' Map.empty = Rejected TwoOverlapping"
    by (simp add: checkConflicts_generic chul_not_kidud queryOverlapping_def example_defs time_defs)
  with done_flag_ignored[where db = example_store2 and f = "\<lambda>r. True" and s = t830 and e = t835
      and st = "''chul''" and d = Map.empty]
  show ?thesis by simp
qed

end
